theory Spec2Isabelle
  imports Main
begin

section \<open>Image metadata embedding: a model of addImageMetadata\<close>

text \<open>
  The development models \<^verbatim>\<open>src/helpers/metadata-generator.js\<close>: the entry point
  \<^verbatim>\<open>addImageMetadata(imagePath, metadata)\<close> and its four format handlers. Strings are
  lists of characters; \<^verbatim>\<open>null\<close>/\<^verbatim>\<open>undefined\<close> arguments are \<open>None\<close>; every
  \<^verbatim>\<open>throw\<close> and every rejected promise is an \<open>Inl\<close> result; the file system and the
  operations performed on it are an explicit state that each operation returns updated.

  Three libraries are used by the source and are not part of it. They are modelled here
  as follows.
  \<^item> Node's \<^verbatim>\<open>path\<close> module, in its POSIX variant (separator \<^verbatim>\<open>/\<close>):
    \<open>extname\<close>, \<open>basename\<close>, \<open>dirname\<close>, \<open>normalize\<close> and \<open>path_join\<close> compute
    what \<^verbatim>\<open>path.posix\<close> computes; the examples of Node's documentation are checked in
    lemma \<open>path_examples\<close>.
  \<^item> Node's \<^verbatim>\<open>fs.access\<close>: succeeds exactly when the path names a file of the state,
    and otherwise rejects with the error \<open>ENOENT\<close>.
  \<^item> The image library \<^verbatim>\<open>sharp\<close>: the pipeline
    \<^verbatim>\<open>sharp(input).withMetadata(options).toFile(output)\<close> reads the input file, hands its
    bytes and the options object to an encoder, and writes the encoder's result to the
    output path. The encoder is a parameter of the model: it may succeed, or fail with any
    error, with or without a partially written output file.
\<close>

subsection \<open>Strings and arrays\<close>

text \<open>
  \<^verbatim>\<open>String.prototype.toLowerCase\<close> on the ASCII letters \<^verbatim>\<open>A\<close> to \<^verbatim>\<open>Z\<close> (codes 65
  to 90; characters are bytes here, and every other byte is left as it is), and
  \<^verbatim>\<open>Array.prototype.join\<close> on an array of strings: the elements with the separator
  between each two of them, the empty string for the empty array.
\<close>

definition lower_char :: "char \<Rightarrow> char" where
  "lower_char c =
     (let n = (of_char c :: nat) in if 65 \<le> n \<and> n \<le> 90 then char_of (n + 32) else c)"

definition toLowerCase :: "string \<Rightarrow> string" where
  "toLowerCase s = map lower_char s"

fun array_join :: "string \<Rightarrow> string list \<Rightarrow> string" where
  "array_join sep [] = []"
| "array_join sep [x] = x"
| "array_join sep (x # y # ys) = x @ sep @ array_join sep (y # ys)"

subsection \<open>Node's path module (POSIX)\<close>

text \<open>
  \<open>last_part\<close> is the right-most component of a path, trailing separators ignored: the
  part of the string that \<^verbatim>\<open>extname\<close> and \<^verbatim>\<open>basename\<close> scan from the right.
\<close>

definition last_part :: "string \<Rightarrow> string" where
  "last_part p =
     rev (takeWhile (\<lambda>c. c \<noteq> CHR ''/'') (dropWhile (\<lambda>c. c = CHR ''/'') (rev p)))"

text \<open>
  \<^verbatim>\<open>path.extname\<close>: from the last dot of the last component to its end; empty when
  there is no dot, when the only dot is the first character of the component, or when the
  component is \<^verbatim>\<open>..\<close>.
\<close>

definition extname :: "string \<Rightarrow> string" where
  "extname p =
     (let c = last_part p;
          suf = rev (takeWhile (\<lambda>x. x \<noteq> CHR ''.'') (rev c));
          pre = rev (drop 1 (dropWhile (\<lambda>x. x \<noteq> CHR ''.'') (rev c)))
      in if CHR ''.'' \<in> set c \<and> pre \<noteq> [] \<and> c \<noteq> ''..'' then CHR ''.'' # suf else [])"

text \<open>
  \<^verbatim>\<open>path.basename(path, suffix)\<close>: the last component, with \<open>suffix\<close> removed when
  the component ends with it and is longer than it. The comparison is exact, character by
  character. (When the whole component matches only the tail of a longer suffix, Node
  returns the rest of the string from the component on, trailing separators included.)
\<close>

definition ends_with :: "string \<Rightarrow> string \<Rightarrow> bool" where
  "ends_with s c = (length s \<le> length c \<and> drop (length c - length s) c = s)"

definition basename :: "string \<Rightarrow> string \<Rightarrow> string" where
  "basename p suffix =
     (let c = last_part p in
      if suffix = [] \<or> length p < length suffix then c
      else if suffix = p then []
      else if ends_with suffix c then
        (if length c = length suffix then c else take (length c - length suffix) c)
      else if ends_with c suffix then
        c @ takeWhile (\<lambda>x. x = CHR ''/'') (rev p)
      else c)"

text \<open>
  \<^verbatim>\<open>path.dirname\<close>: everything before the separator that precedes the last component.
\<close>

definition dirname :: "string \<Rightarrow> string" where
  "dirname p =
     (if p = [] then ''.''
      else
        let hasRoot = (hd p = CHR ''/'');
            rest = dropWhile (\<lambda>c. c \<noteq> CHR ''/'')
                     (dropWhile (\<lambda>c. c = CHR ''/'') (rev (tl p)))
        in if rest = [] then (if hasRoot then ''/'' else ''.'')
           else if hasRoot \<and> length rest = 1 then ''//''
           else take (length rest) p)"

text \<open>
  \<^verbatim>\<open>path.normalize\<close> and \<^verbatim>\<open>path.join\<close>: the segments between separators are
  processed left to right; empty segments and \<^verbatim>\<open>.\<close> are dropped, \<^verbatim>\<open>..\<close> removes the
  segment before it (the stack \<open>stk\<close> holds the segments kept so far, last one first).
\<close>

fun split_sep :: "string \<Rightarrow> string list" where
  "split_sep [] = [[]]"
| "split_sep (c # cs) =
     (if c = CHR ''/'' then [] # split_sep cs
      else (case split_sep cs of s # ss \<Rightarrow> (c # s) # ss | [] \<Rightarrow> [[c]]))"

definition norm_step :: "bool \<Rightarrow> string list \<Rightarrow> string \<Rightarrow> string list" where
  "norm_step allowAboveRoot stk seg =
     (if seg = [] \<or> seg = ''.'' then stk
      else if seg = ''..'' then
        (case stk of
           [] \<Rightarrow> if allowAboveRoot then [''..''] else []
         | t # ts \<Rightarrow> if t = ''..'' then (if allowAboveRoot then ''..'' # stk else stk) else ts)
      else seg # stk)"

definition normalizeString :: "string \<Rightarrow> bool \<Rightarrow> string" where
  "normalizeString p allowAboveRoot =
     array_join ''/'' (rev (foldl (norm_step allowAboveRoot) [] (split_sep p)))"

definition normalize :: "string \<Rightarrow> string" where
  "normalize p =
     (if p = [] then ''.''
      else
        let isAbsolute = (hd p = CHR ''/'');
            trailingSeparator = (last p = CHR ''/'');
            s = normalizeString p (\<not> isAbsolute)
        in if s = [] then (if isAbsolute then ''/'' else if trailingSeparator then ''./'' else ''.'')
           else (if isAbsolute then ''/'' else []) @ s @ (if trailingSeparator then ''/'' else []))"

definition path_join :: "string list \<Rightarrow> string" where
  "path_join args =
     (let parts = filter (\<lambda>a. a \<noteq> []) args
      in if parts = [] then ''.'' else normalize (array_join ''/'' parts))"

subsection \<open>JavaScript values\<close>

text \<open>
  An error object carries its class name (\<^verbatim>\<open>error.name\<close>) and its message;
  \<open>Error msg\<close> is \<^verbatim>\<open>new Error(msg)\<close>. The metadata argument has the fields of the
  function's documentation comment. Object literals are key-value lists, and \<open>get_path\<close>
  reads a nested property.
\<close>

record js_error =
  err_name :: string
  err_message :: string

definition Error :: "string \<Rightarrow> js_error" where
  "Error msg = \<lparr>err_name = ''Error'', err_message = msg\<rparr>"

record metadata =
  title :: string
  description :: string
  "keywords" :: "string list"

record embed_result =
  status :: string
  outputPath :: string
  message :: string

datatype js_value = Str string | Arr "string list" | Obj "(string \<times> js_value) list"

fun get_path :: "string list \<Rightarrow> js_value \<Rightarrow> js_value option" where
  "get_path [] v = Some v"
| "get_path (k # ks) (Obj kvs) =
     (case map_of kvs k of None \<Rightarrow> None | Some v \<Rightarrow> get_path ks v)"
| "get_path (k # ks) _ = None"

subsection \<open>The file system and the image library\<close>

text \<open>
  The state holds the files by path and the log of the operations performed, in order.
  A path string identifies a file: symbolic and hard links are not modelled.

  \<open>fs_access\<close> is \<^verbatim>\<open>await fs.access(imagePath)\<close> (line 23): it resolves when the file
  exists and rejects with Node's \<^verbatim>\<open>ENOENT\<close> error otherwise.

  \<open>sharp_toFile\<close> is \<^verbatim>\<open>sharp(inputPath).withMetadata(options).toFile(fileOut)\<close>, the
  pipeline every handler ends with. The encoder \<open>enc\<close> stands for the library's decoding
  and encoding: given the bytes of the input and the options it returns the bytes of the
  output, or an error together with the part of the output already written, if any.
\<close>

type_synonym bytes = "nat list"

datatype io_event = Access string | ReadFile string | WriteFile string

record world =
  files :: "string \<rightharpoonup> bytes"
  io_log :: "io_event list"

definition ENOENT :: "string \<Rightarrow> js_error" where
  "ENOENT p =
     Error (''ENOENT: no such file or directory, access '' @ [CHR 0x27] @ p @ [CHR 0x27])"

definition fs_access :: "string \<Rightarrow> world \<Rightarrow> (js_error + unit) \<times> world" where
  "fs_access p w =
     ((case files w p of None \<Rightarrow> Inl (ENOENT p) | Some _ \<Rightarrow> Inr ()),
      w\<lparr>io_log := io_log w @ [Access p]\<rparr>)"

type_synonym sharp_encoder = "bytes \<Rightarrow> js_value \<Rightarrow> (js_error \<times> bytes option) + bytes"

definition sharp_toFile ::
  "sharp_encoder \<Rightarrow> string \<Rightarrow> js_value \<Rightarrow> string \<Rightarrow> world \<Rightarrow> (js_error + unit) \<times> world" where
  "sharp_toFile enc inputPath options fileOut w =
     (case files w inputPath of
        None \<Rightarrow>
          (Inl (Error (''Input file is missing: '' @ inputPath)),
           w\<lparr>io_log := io_log w @ [ReadFile inputPath]\<rparr>)
      | Some src \<Rightarrow>
          (case enc src options of
             Inl (e, None) \<Rightarrow>
               (Inl e, w\<lparr>io_log := io_log w @ [ReadFile inputPath]\<rparr>)
           | Inl (e, Some part) \<Rightarrow>
               (Inl e, w\<lparr>files := (files w)(fileOut \<mapsto> part),
                         io_log := io_log w @ [ReadFile inputPath, WriteFile fileOut]\<rparr>)
           | Inr out \<Rightarrow>
               (Inr (), w\<lparr>files := (files w)(fileOut \<mapsto> out),
                          io_log := io_log w @ [ReadFile inputPath, WriteFile fileOut]\<rparr>)))"

subsection \<open>The format handlers\<close>

text \<open>
  Lines 65 to 157 of the source. Each handler builds its metadata object from the three
  fields and passes it to \<^verbatim>\<open>withMetadata\<close> under the key of its format; the definitions
  \<open>jpeg_withMetadata\<close>, \<open>png_withMetadata\<close>, \<open>webp_withMetadata\<close> and
  \<open>tiff_withMetadata\<close> are the argument objects of these calls.
\<close>

definition exifMetadata :: "metadata \<Rightarrow> js_value" where
  "exifMetadata md =
     Obj [(''IFD0'', Obj [(''ImageDescription'', Str (description md)),
                          (''XPTitle'', Str (title md)),
                          (''XPKeywords'', Str (array_join '';'' (keywords md)))])]"

definition iptcMetadata :: "metadata \<Rightarrow> js_value" where
  "iptcMetadata md =
     Obj [(''ObjectName'', Str (title md)),
          (''Caption'', Str (description md)),
          (''Keywords'', Arr (keywords md))]"

definition jpeg_withMetadata :: "metadata \<Rightarrow> js_value" where
  "jpeg_withMetadata md = Obj [(''exif'', exifMetadata md), (''iptc'', iptcMetadata md)]"

definition handleJpegMetadata ::
  "sharp_encoder \<Rightarrow> string \<Rightarrow> string \<Rightarrow> metadata \<Rightarrow> world \<Rightarrow> (js_error + unit) \<times> world" where
  "handleJpegMetadata enc inputPath outPath md w =
     sharp_toFile enc inputPath (jpeg_withMetadata md) outPath w"

definition pngMetadata :: "metadata \<Rightarrow> js_value" where
  "pngMetadata md =
     Obj [(''Title'', Str (title md)),
          (''Description'', Str (description md)),
          (''Keywords'', Str (array_join '', '' (keywords md)))]"

definition png_withMetadata :: "metadata \<Rightarrow> js_value" where
  "png_withMetadata md = Obj [(''png'', Obj [(''text'', pngMetadata md)])]"

definition handlePngMetadata ::
  "sharp_encoder \<Rightarrow> string \<Rightarrow> string \<Rightarrow> metadata \<Rightarrow> world \<Rightarrow> (js_error + unit) \<times> world" where
  "handlePngMetadata enc inputPath outPath md w =
     sharp_toFile enc inputPath (png_withMetadata md) outPath w"

definition webpMetadata :: "metadata \<Rightarrow> js_value" where
  "webpMetadata md =
     Obj [(''Title'', Str (title md)),
          (''Description'', Str (description md)),
          (''Keywords'', Str (array_join '', '' (keywords md)))]"

definition webp_withMetadata :: "metadata \<Rightarrow> js_value" where
  "webp_withMetadata md = Obj [(''webp'', Obj [(''xmp'', webpMetadata md)])]"

definition handleWebPMetadata ::
  "sharp_encoder \<Rightarrow> string \<Rightarrow> string \<Rightarrow> metadata \<Rightarrow> world \<Rightarrow> (js_error + unit) \<times> world" where
  "handleWebPMetadata enc inputPath outPath md w =
     sharp_toFile enc inputPath (webp_withMetadata md) outPath w"

definition tiffMetadata :: "metadata \<Rightarrow> js_value" where
  "tiffMetadata md =
     Obj [(''ImageDescription'', Str (description md)),
          (''DocumentName'', Str (title md)),
          (''Keywords'', Str (array_join '';'' (keywords md)))]"

definition tiff_withMetadata :: "metadata \<Rightarrow> js_value" where
  "tiff_withMetadata md = Obj [(''tiff'', tiffMetadata md)]"

definition handleTiffMetadata ::
  "sharp_encoder \<Rightarrow> string \<Rightarrow> string \<Rightarrow> metadata \<Rightarrow> world \<Rightarrow> (js_error + unit) \<times> world" where
  "handleTiffMetadata enc inputPath outPath md w =
     sharp_toFile enc inputPath (tiff_withMetadata md) outPath w"

subsection \<open>The entry point\<close>

text \<open>
  Lines 15 to 59 of the source. \<open>falsy\<close> is JavaScript's \<^verbatim>\<open>!imagePath\<close> on a string or
  \<^verbatim>\<open>null\<close> (the empty string is falsy too); \<open>outputPath_for\<close> is the expression of lines
  27 to 30, with the already lower-cased \<open>ext\<close>; \<open>dispatch\<close> is the \<^verbatim>\<open>switch (ext)\<close>;
  \<open>addImageMetadata_try\<close> is the body of the \<^verbatim>\<open>try\<close> block and \<open>addImageMetadata\<close> adds
  the \<^verbatim>\<open>catch\<close> block, which rethrows every error as a \<^verbatim>\<open>new Error\<close> whose message
  is \<^verbatim>\<open>Failed to add metadata: \<close> followed by the message of the error caught.
\<close>

definition falsy :: "string option \<Rightarrow> bool" where
  "falsy v = (case v of None \<Rightarrow> True | Some s \<Rightarrow> s = [])"

definition outputPath_for :: "string \<Rightarrow> string \<Rightarrow> string" where
  "outputPath_for imagePath ext =
     path_join [dirname imagePath, basename imagePath ext @ ''_with_metadata'' @ ext]"

definition dispatch ::
  "sharp_encoder \<Rightarrow> string \<Rightarrow> string \<Rightarrow> string \<Rightarrow> metadata \<Rightarrow> world \<Rightarrow> (js_error + unit) \<times> world" where
  "dispatch enc ext imagePath outPath md w =
     (if ext = ''.jpg'' \<or> ext = ''.jpeg'' then handleJpegMetadata enc imagePath outPath md w
      else if ext = ''.png'' then handlePngMetadata enc imagePath outPath md w
      else if ext = ''.webp'' then handleWebPMetadata enc imagePath outPath md w
      else if ext = ''.tiff'' then handleTiffMetadata enc imagePath outPath md w
      else (Inl (Error (''Unsupported image format: '' @ ext)), w))"

definition addImageMetadata_try ::
  "sharp_encoder \<Rightarrow> string option \<Rightarrow> metadata option \<Rightarrow> world \<Rightarrow> (js_error + embed_result) \<times> world" where
  "addImageMetadata_try enc imagePath md w =
     (if falsy imagePath \<or> md = None then
        (Inl (Error ''Image path and metadata are required''), w)
      else
        (case fs_access (the imagePath) w of
           (Inl e, w1) \<Rightarrow> (Inl e, w1)
         | (Inr _, w1) \<Rightarrow>
             (let ext = toLowerCase (extname (the imagePath));
                  outPath = outputPath_for (the imagePath) ext
              in case dispatch enc ext (the imagePath) outPath (the md) w1 of
                   (Inl e, w2) \<Rightarrow> (Inl e, w2)
                 | (Inr _, w2) \<Rightarrow>
                     (Inr \<lparr>status = ''success'', outputPath = outPath,
                           message = ''Metadata added successfully''\<rparr>, w2))))"

definition addImageMetadata ::
  "sharp_encoder \<Rightarrow> string option \<Rightarrow> metadata option \<Rightarrow> world \<Rightarrow> (js_error + embed_result) \<times> world" where
  "addImageMetadata enc imagePath md w =
     (case addImageMetadata_try enc imagePath md w of
        (Inl error, w') \<Rightarrow> (Inl (Error (''Failed to add metadata: '' @ err_message error)), w')
      | (Inr r, w') \<Rightarrow> (Inr r, w'))"

text \<open>
  The extensions that have a \<^verbatim>\<open>case\<close> label in the switch.
\<close>

definition supported_ext :: "string \<Rightarrow> bool" where
  "supported_ext ext =
     (ext = ''.jpg'' \<or> ext = ''.jpeg'' \<or> ext = ''.png'' \<or> ext = ''.webp'' \<or> ext = ''.tiff'')"

subsection \<open>Sample values\<close>

text \<open>
  The metadata of the specification's example, a file system with three uploaded files,
  an encoder that succeeds and returns the source bytes, and one that fails.
\<close>

definition sunset_metadata :: metadata where
  "sunset_metadata =
     \<lparr>title = ''Sunset'', description = ''A beach at dusk'', keywords = [''beach'', ''sunset'']\<rparr>"

definition sample_world :: world where
  "sample_world =
     \<lparr>files = [''uploads/photo.JPG'' \<mapsto> [255, 216, 255],
               ''uploads/scan.bmp'' \<mapsto> [66, 77],
               ''uploads/pic.png'' \<mapsto> [137, 80, 78, 71]],
      io_log = []\<rparr>"

definition identity_encoder :: sharp_encoder where
  "identity_encoder src options = Inr src"

definition failing_encoder :: sharp_encoder where
  "failing_encoder src options =
     Inl (Error ''Input file contains unsupported image format'', None)"

section \<open>Properties of the path functions\<close>

text \<open>
  The examples of Node's documentation for \<^verbatim>\<open>path.posix\<close>, and the path of the usage
  example in \<^verbatim>\<open>index.js\<close>.
\<close>

lemma path_examples:
  "extname ''index.html'' = ''.html''"
  "extname ''index.coffee.md'' = ''.md''"
  "extname ''index.'' = ''.''"
  "extname ''index'' = []"
  "extname ''.index'' = []"
  "extname ''.index.md'' = ''.md''"
  "basename ''/foo/bar/baz/asdf/quux.html'' [] = ''quux.html''"
  "basename ''/foo/bar/baz/asdf/quux.html'' ''.html'' = ''quux''"
  "basename ''aaa/bbb//'' ''bbb'' = ''bbb''"
  "dirname ''/foo/bar/baz/asdf/quux'' = ''/foo/bar/baz/asdf''"
  "normalize ''/foo/bar//baz/asdf/quux/..'' = ''/foo/bar/baz/asdf''"
  "path_join [''/foo'', ''bar'', ''baz/asdf'', ''quux'', ''..''] = ''/foo/bar/baz/asdf''"
  "outputPath_for ''./uploads/test.jpg'' ''.jpg'' = ''uploads/test_with_metadata.jpg''"
  by code_simp+

lemma last_part_no_sep: "CHR ''/'' \<notin> set (last_part p)"
  unfolding last_part_def by (auto dest: set_takeWhileD)

lemma last_part_length: "length (last_part p) \<le> length p"
proof -
  have "length (last_part p) \<le> length (dropWhile (\<lambda>c. c = CHR ''/'') (rev p))"
    unfolding last_part_def by (simp add: length_takeWhile_le)
  also have "\<dots> \<le> length (rev p)" by (rule length_dropWhile_le)
  finally show ?thesis by simp
qed

lemma extname_shape:
  assumes "extname p \<noteq> []"
  shows "\<exists>pre suf. last_part p = pre @ extname p \<and> pre \<noteq> [] \<and> extname p = CHR ''.'' # suf"
proof -
  let ?c = "last_part p"
  let ?suf = "rev (takeWhile (\<lambda>x. x \<noteq> CHR ''.'') (rev ?c))"
  let ?d = "dropWhile (\<lambda>x. x \<noteq> CHR ''.'') (rev ?c)"
  let ?pre = "rev (drop 1 ?d)"
  from assms have dot: "CHR ''.'' \<in> set ?c" and pre: "?pre \<noteq> []" and ext: "extname p = CHR ''.'' # ?suf"
    by (auto simp: extname_def Let_def split: if_splits)
  from dot have "?d \<noteq> []" by auto
  then have hd: "hd ?d = CHR ''.''" using hd_dropWhile[of "\<lambda>x. x \<noteq> CHR ''.''" "rev ?c"] by auto
  with \<open>?d \<noteq> []\<close> have d: "?d = CHR ''.'' # drop 1 ?d" by (cases ?d) auto
  have "rev ?c = takeWhile (\<lambda>x. x \<noteq> CHR ''.'') (rev ?c) @ ?d" by simp
  then have "rev ?c = takeWhile (\<lambda>x. x \<noteq> CHR ''.'') (rev ?c) @ CHR ''.'' # drop 1 ?d"
    using d by simp
  then have "rev (rev ?c) = rev (takeWhile (\<lambda>x. x \<noteq> CHR ''.'') (rev ?c) @ CHR ''.'' # drop 1 ?d)"
    by simp
  then have "?c = ?pre @ CHR ''.'' # ?suf" by simp
  with pre ext show ?thesis by metis
qed

lemma lower_char_sep: "lower_char c = CHR ''/'' \<longleftrightarrow> c = CHR ''/''"
proof
  assume a: "lower_char c = CHR ''/''"
  show "c = CHR ''/''"
  proof (cases "65 \<le> (of_char c :: nat) \<and> (of_char c :: nat) \<le> 90")
    case True
    with a have "char_of ((of_char c :: nat) + 32) = CHR ''/''"
      by (simp add: lower_char_def Let_def)
    then have "(of_char (char_of ((of_char c :: nat) + 32) :: char) :: nat) = of_char CHR ''/''"
      by simp
    then have "((of_char c :: nat) + 32) mod 256 = 47" by simp
    moreover have "((of_char c :: nat) + 32) mod 256 = of_char c + 32"
      using True by (intro mod_less) simp
    ultimately show ?thesis using True by simp
  next
    case False
    with a show ?thesis by (auto simp: lower_char_def Let_def)
  qed
next
  assume "c = CHR ''/''"
  then show "lower_char c = CHR ''/''" by (simp add: lower_char_def)
qed

lemma toLowerCase_no_sep: "CHR ''/'' \<notin> set s \<Longrightarrow> CHR ''/'' \<notin> set (toLowerCase s)"
proof
  assume a: "CHR ''/'' \<notin> set s" and b: "CHR ''/'' \<in> set (toLowerCase s)"
  from b obtain x where "x \<in> set s" and "lower_char x = CHR ''/''"
    unfolding toLowerCase_def by force
  then have "CHR ''/'' \<in> set s" by (simp add: lower_char_sep)
  with a show False by simp
qed

lemma toLowerCase_length: "length (toLowerCase s) = length s"
  by (simp add: toLowerCase_def)

lemma toLowerCase_nonempty: "toLowerCase s \<noteq> [] \<Longrightarrow> s \<noteq> []"
  by (auto simp: toLowerCase_def)

lemma basename_cases:
  assumes "e \<noteq> []" and "length e < length (last_part p)"
  shows "basename p e = last_part p \<or>
         basename p e = take (length (last_part p) - length e) (last_part p)"
proof -
  have "length e < length p" using assms(2) last_part_length[of p] by simp
  then have "e \<noteq> p" by auto
  moreover have "\<not> ends_with (last_part p) e" using assms(2) by (simp add: ends_with_def)
  ultimately show ?thesis using assms \<open>length e < length p\<close>
    by (simp add: basename_def Let_def)
qed

lemma dirname_nonempty: "dirname p \<noteq> []"
proof (cases "p = []")
  case True
  then show ?thesis by (simp add: dirname_def)
next
  case False
  define rest where "rest = dropWhile (\<lambda>c. c \<noteq> CHR ''/'')
                     (dropWhile (\<lambda>c. c = CHR ''/'') (rev (tl p)))"
  have "take (length rest) p \<noteq> []" if "rest \<noteq> []"
    using that False by simp
  then show ?thesis
    using False unfolding dirname_def Let_def rest_def[symmetric] by simp
qed

lemma split_sep_nonempty: "split_sep s \<noteq> []"
  by (induction s) (auto split: list.splits)

lemma split_sep_no_sep: "CHR ''/'' \<notin> set s \<Longrightarrow> split_sep s = [s]"
  by (induction s) auto

lemma split_sep_append:
  "split_sep (xs @ CHR ''/'' # ys) = split_sep xs @ split_sep ys"
  by (induction xs) (auto split: list.splits simp: split_sep_nonempty)

lemma array_join_snoc:
  "array_join sep (ys @ [x]) = (if ys = [] then x else array_join sep ys @ sep @ x)"
  by (induction sep ys rule: array_join.induct) auto

lemma last_part_append:
  assumes "name \<noteq> []" and "CHR ''/'' \<notin> set name" and "Y = [] \<or> last Y = CHR ''/''"
  shows "last_part (Y @ name) = name"
proof -
  have hd: "hd (rev name) \<noteq> CHR ''/''"
    using assms(1,2) by (metis hd_rev last_in_set)
  have ne: "rev name \<noteq> []" using assms(1) by simp
  from hd ne have d: "dropWhile (\<lambda>c. c = CHR ''/'') (rev name @ rev Y) = rev name @ rev Y"
    by (cases "rev name") auto
  have t: "takeWhile (\<lambda>c. c \<noteq> CHR ''/'') (rev name @ rev Y) = rev name"
  proof (cases "Y = []")
    case True
    then show ?thesis using assms(2) by (auto simp: takeWhile_eq_all_conv)
  next
    case False
    with assms(3) have "hd (rev Y) = CHR ''/''" by (simp add: hd_rev)
    with False obtain Z where Z: "rev Y = CHR ''/'' # Z" by (cases "rev Y") auto
    show ?thesis unfolding Z using assms(2) by (auto simp: takeWhile_tail)
  qed
  show ?thesis unfolding last_part_def by (simp add: d t)
qed

lemma normalize_keeps_last:
  assumes "name \<noteq> []" and "CHR ''/'' \<notin> set name" and "name \<noteq> ''.''" and "name \<noteq> ''..''"
  shows "last_part (normalize (d @ CHR ''/'' # name)) = name"
proof -
  let ?q = "d @ CHR ''/'' # name"
  let ?allow = "\<not> (hd ?q = CHR ''/'')"
  let ?stk = "foldl (norm_step ?allow) [] (split_sep d)"
  have "last ?q = last name" using assms(1) by simp
  then have last: "last ?q \<noteq> CHR ''/''"
    using assms(1,2) by (metis last_in_set)
  have split: "split_sep ?q = split_sep d @ [name]"
    using assms(2) by (simp add: split_sep_append split_sep_no_sep)
  have step: "norm_step ?allow ?stk name = name # ?stk"
    using assms by (simp add: norm_step_def)
  have s: "normalizeString ?q ?allow =
             (if ?stk = [] then name else array_join ''/'' (rev ?stk) @ ''/'' @ name)"
    unfolding normalizeString_def split by (simp add: step array_join_snoc)
  define X where "X = (if ?stk = [] then [] else array_join ''/'' (rev ?stk) @ ''/'')"
  have sX: "normalizeString ?q ?allow = X @ name" and X: "X = [] \<or> last X = CHR ''/''"
    using s by (auto simp: X_def)
  have "normalize ?q = (if hd ?q = CHR ''/'' then ''/'' else []) @ X @ name"
    using last assms(1) sX by (simp add: normalize_def Let_def)
  then have "normalize ?q = ((if hd ?q = CHR ''/'' then ''/'' else []) @ X) @ name" by simp
  moreover have "((if hd ?q = CHR ''/'' then ''/'' else []) @ X) = [] \<or>
                 last ((if hd ?q = CHR ''/'' then ''/'' else []) @ X) = CHR ''/''"
    using X by (auto simp: last_append)
  ultimately show ?thesis using last_part_append[OF assms(1,2)] by metis
qed

lemma path_join_keeps_last:
  assumes "d \<noteq> []" and "name \<noteq> []" and "CHR ''/'' \<notin> set name"
    and "name \<noteq> ''.''" and "name \<noteq> ''..''"
  shows "last_part (path_join [d, name]) = name"
  using assms normalize_keeps_last[of name d] by (simp add: path_join_def)

text \<open>
  The last component of the output path is the computed file name, and it is longer than
  the last component of the source path: the two paths name different directory entries.
\<close>

lemma outputPath_last_part:
  assumes "extname p \<noteq> []"
  shows "last_part (outputPath_for p (toLowerCase (extname p))) =
           basename p (toLowerCase (extname p)) @ ''_with_metadata'' @ toLowerCase (extname p)"
    and "length (last_part p) <
           length (basename p (toLowerCase (extname p)) @ ''_with_metadata'' @ toLowerCase (extname p))"
proof -
  let ?e = "toLowerCase (extname p)"
  let ?c = "last_part p"
  let ?name = "basename p ?e @ ''_with_metadata'' @ ?e"
  from extname_shape[OF assms] obtain pre suf where
    c: "?c = pre @ extname p" and pre: "pre \<noteq> []" and ext: "extname p = CHR ''.'' # suf"
    by blast
  have len_e: "length ?e = length (extname p)" by (rule toLowerCase_length)
  have e_ne: "?e \<noteq> []" using assms by (simp add: toLowerCase_def)
  have lt: "length ?e < length ?c"
  proof -
    have "length ?c = length pre + length (extname p)" using c by (metis length_append)
    with pre len_e show ?thesis by simp
  qed
  have "set (extname p) \<subseteq> set ?c" using c by (metis set_append Un_upper2)
  then have "CHR ''/'' \<notin> set (extname p)" using last_part_no_sep[of p] by blast
  then have e_sep: "CHR ''/'' \<notin> set ?e" by (rule toLowerCase_no_sep)
  from basename_cases[OF e_ne lt]
  have b: "basename p ?e = ?c \<or> basename p ?e = take (length ?c - length ?e) ?c" .
  then have b_sep: "CHR ''/'' \<notin> set (basename p ?e)"
    using last_part_no_sep[of p] by (auto dest: in_set_takeD)
  from b lt have b_len: "length ?c - length ?e \<le> length (basename p ?e)" by auto
  show len: "length ?c < length ?name" using b_len lt by simp
  have sep: "CHR ''/'' \<notin> set ?name" using b_sep e_sep by simp
  have "14 \<le> length ?name" by simp
  then have ne: "?name \<noteq> []" and nd: "?name \<noteq> ''.''" and ndd: "?name \<noteq> ''..''"
    by auto
  show "last_part (outputPath_for p ?e) = ?name"
    unfolding outputPath_for_def
    by (rule path_join_keeps_last[OF dirname_nonempty ne sep nd ndd])
qed

lemma outputPath_differs:
  assumes "extname p \<noteq> []"
  shows "outputPath_for p (toLowerCase (extname p)) \<noteq> p"
proof
  assume "outputPath_for p (toLowerCase (extname p)) = p"
  then have "last_part (outputPath_for p (toLowerCase (extname p))) = last_part p" by simp
  with outputPath_last_part[OF assms] show False by auto
qed

lemma supported_ext_nonempty: "supported_ext (toLowerCase (extname p)) \<Longrightarrow> extname p \<noteq> []"
  by (auto simp: supported_ext_def toLowerCase_def)

text \<open>
  When the extension of the source is already in lower case, the output name is the
  source name with \<^verbatim>\<open>_with_metadata\<close> inserted before the extension.
\<close>

lemma outputPath_lowercase_ext:
  assumes "extname p \<noteq> []" and "toLowerCase (extname p) = extname p"
  shows "\<exists>stem. stem \<noteq> [] \<and> last_part p = stem @ extname p \<and>
           last_part (outputPath_for p (toLowerCase (extname p))) =
             stem @ ''_with_metadata'' @ extname p"
proof -
  from extname_shape[OF assms(1)] obtain pre suf where
    c: "last_part p = pre @ extname p" and pre: "pre \<noteq> []" by blast
  have len: "length (extname p) < length (last_part p)"
    using pre by (simp add: c)
  have "length (last_part p) \<le> length p" by (rule last_part_length)
  with len have lp: "length (extname p) < length p" by simp
  then have ne: "extname p \<noteq> p" by auto
  have ew: "ends_with (extname p) (last_part p)"
    using pre by (simp add: ends_with_def c)
  have "basename p (extname p) = take (length (last_part p) - length (extname p)) (last_part p)"
    using assms(1) lp ne ew len by (simp add: basename_def Let_def)
  also have "\<dots> = pre" by (simp add: c)
  finally have b: "basename p (extname p) = pre" .
  from outputPath_last_part(1)[OF assms(1)] b assms(2)
  have "last_part (outputPath_for p (toLowerCase (extname p))) =
          pre @ ''_with_metadata'' @ extname p" by simp
  with c pre show ?thesis by blast
qed

section \<open>Effects of the handlers and the steps of the entry point\<close>

lemma sharp_toFile_effect:
  assumes "sharp_toFile enc i opts out w = (r, w')"
  shows "(\<forall>q. q \<noteq> out \<longrightarrow> files w' q = files w q) \<and>
         (io_log w' = io_log w @ [ReadFile i] \<or>
          io_log w' = io_log w @ [ReadFile i, WriteFile out])"
  using assms unfolding sharp_toFile_def
  by (auto split: option.splits sum.splits prod.splits)

lemma dispatch_effect:
  assumes "dispatch enc ext p out md w = (r, w')"
  shows "(supported_ext ext \<and> (\<forall>q. q \<noteq> out \<longrightarrow> files w' q = files w q) \<and>
          (io_log w' = io_log w @ [ReadFile p] \<or>
           io_log w' = io_log w @ [ReadFile p, WriteFile out])) \<or>
         (\<not> supported_ext ext \<and> w' = w \<and> r = Inl (Error (''Unsupported image format: '' @ ext)))"
proof (cases "supported_ext ext")
  case True
  then obtain opts where "dispatch enc ext p out md w = sharp_toFile enc p opts out w"
    unfolding dispatch_def supported_ext_def handleJpegMetadata_def handlePngMetadata_def
      handleWebPMetadata_def handleTiffMetadata_def
    by auto
  with assms have "sharp_toFile enc p opts out w = (r, w')" by simp
  from sharp_toFile_effect[OF this] True show ?thesis by blast
next
  case False
  then have "dispatch enc ext p out md w = (Inl (Error (''Unsupported image format: '' @ ext)), w)"
    unfolding dispatch_def supported_ext_def by simp
  with assms False show ?thesis by auto
qed

lemma dispatch_unsupported:
  "\<not> supported_ext ext \<Longrightarrow>
   dispatch enc ext p out m w = (Inl (Error (''Unsupported image format: '' @ ext)), w)"
  by (simp add: dispatch_def supported_ext_def)

lemma dispatch_failure:
  assumes "fst (dispatch enc ext p out m w) = Inl cause" and "supported_ext ext"
    and "files w p = Some src"
  shows "\<exists>opts part. enc src opts = Inl (cause, part)"
proof -
  from assms(2) obtain opts where
    "dispatch enc ext p out m w = sharp_toFile enc p opts out w"
    unfolding dispatch_def supported_ext_def handleJpegMetadata_def handlePngMetadata_def
      handleWebPMetadata_def handleTiffMetadata_def
    by auto
  with assms(1) have "fst (sharp_toFile enc p opts out w) = Inl cause" by simp
  then show ?thesis using assms(3) unfolding sharp_toFile_def
    by (auto split: sum.splits prod.splits option.splits)
qed

lemma try_validation:
  "falsy ip \<or> md = None \<Longrightarrow>
   addImageMetadata_try enc ip md w = (Inl (Error ''Image path and metadata are required''), w)"
  by (simp add: addImageMetadata_try_def)

lemma try_missing:
  "p \<noteq> [] \<Longrightarrow> files w p = None \<Longrightarrow>
   addImageMetadata_try enc (Some p) (Some m) w =
     (Inl (ENOENT p), w\<lparr>io_log := io_log w @ [Access p]\<rparr>)"
  by (simp add: addImageMetadata_try_def falsy_def fs_access_def)

lemma try_existing:
  "p \<noteq> [] \<Longrightarrow> files w p = Some b \<Longrightarrow>
   addImageMetadata_try enc (Some p) (Some m) w =
     (case dispatch enc (toLowerCase (extname p)) p
             (outputPath_for p (toLowerCase (extname p))) m
             (w\<lparr>io_log := io_log w @ [Access p]\<rparr>) of
        (Inl e, w2) \<Rightarrow> (Inl e, w2)
      | (Inr _, w2) \<Rightarrow>
          (Inr \<lparr>status = ''success'',
                outputPath = outputPath_for p (toLowerCase (extname p)),
                message = ''Metadata added successfully''\<rparr>, w2))"
  by (simp add: addImageMetadata_try_def falsy_def fs_access_def Let_def)

lemma snd_try_existing:
  assumes "p \<noteq> []" and "files w p = Some b"
  shows "snd (addImageMetadata_try enc (Some p) (Some m) w) =
           snd (dispatch enc (toLowerCase (extname p)) p
                  (outputPath_for p (toLowerCase (extname p))) m
                  (w\<lparr>io_log := io_log w @ [Access p]\<rparr>))"
  unfolding try_existing[OF assms] by (auto split: prod.splits sum.splits)

lemma snd_addImageMetadata:
  "snd (addImageMetadata enc ip md w) = snd (addImageMetadata_try enc ip md w)"
  unfolding addImageMetadata_def by (auto split: prod.splits sum.splits)

lemma addImageMetadata_failure:
  "fst (addImageMetadata enc ip md w) = Inl e \<Longrightarrow>
   \<exists>cause. fst (addImageMetadata_try enc ip md w) = Inl cause \<and>
           e = Error (''Failed to add metadata: '' @ err_message cause)"
  unfolding addImageMetadata_def by (auto split: prod.splits sum.splits)

text \<open>
  Runs on the sample values.
\<close>

lemma png_path: "toLowerCase (extname ''uploads/pic.png'') = ''.png''"
  by code_simp


lemma run_no_metadata:
  "fst (addImageMetadata identity_encoder (Some ''uploads/photo.JPG'') None sample_world) =
     Inl (Error ''Failed to add metadata: Image path and metadata are required'')"
  unfolding sample_world_def by code_simp

lemma run_missing:
  "fst (addImageMetadata identity_encoder (Some ''uploads/missing.jpg'') (Some sunset_metadata)
          sample_world) =
     Inl (Error (''Failed to add metadata: ENOENT: no such file or directory, access '' @
                 [CHR 0x27] @ ''uploads/missing.jpg'' @ [CHR 0x27]))"
  unfolding sample_world_def sunset_metadata_def by code_simp

lemma run_unsupported:
  "fst (addImageMetadata identity_encoder (Some ''uploads/scan.bmp'') (Some sunset_metadata)
          sample_world) =
     Inl (Error ''Failed to add metadata: Unsupported image format: .bmp'')"
  unfolding sample_world_def sunset_metadata_def by code_simp

lemma run_handler_failure:
  "fst (addImageMetadata failing_encoder (Some ''uploads/pic.png'') (Some sunset_metadata)
          sample_world) =
     Inl (Error ''Failed to add metadata: Input file contains unsupported image format'')"
  unfolding sample_world_def sunset_metadata_def by code_simp

text \<open>
  Joining with \<^verbatim>\<open>;\<close> and with \<^verbatim>\<open>, \<close> gives the same string exactly for the lists
  with fewer than two elements, where no separator is written.
\<close>

lemma array_join_length:
  "length (array_join sep ks) = sum_list (map length ks) + (length ks - 1) * length sep"
  by (induction sep ks rule: array_join.induct) auto

lemma joined_keywords_coincide:
  "array_join '';'' ks = array_join '', '' ks \<longleftrightarrow> length ks \<le> 1"
proof
  assume eq: "array_join '';'' ks = array_join '', '' ks"
  have "length (array_join '';'' ks) = length (array_join '', '' ks)" using eq by simp
  then have "(length ks - 1) * 1 = (length ks - 1) * 2"
    unfolding array_join_length by simp
  then show "length ks \<le> 1" by simp
next
  assume "length ks \<le> 1"
  then have "ks = [] \<or> (\<exists>k. ks = [k])" by (cases ks) auto
  then show "array_join '';'' ks = array_join '', '' ks" by auto
qed

section \<open>The claims\<close>

subsection \<open>C1: the error classes\<close>

text \<open>
  C1 states that failures are raised as four distinguishable error classes. The code
  defines no error class: the \<^verbatim>\<open>catch\<close> block rethrows everything as
  \<^verbatim>\<open>new Error(...)\<close>. A missing metadata argument, an unsupported extension and a failure
  of the image library all raise an error whose class is \<^verbatim>\<open>Error\<close>, and the phrase
  \<^verbatim>\<open>Failed to add metadata\<close> opens the message of all of them, not only of the
  embedding failure.
\<close>

theorem error_classes_counterexample:
  "fst (addImageMetadata identity_encoder (Some ''uploads/photo.JPG'') None sample_world) =
     Inl \<lparr>err_name = ''Error'',
           err_message = ''Failed to add metadata: Image path and metadata are required''\<rparr> \<and>
   fst (addImageMetadata identity_encoder (Some ''uploads/scan.bmp'') (Some sunset_metadata)
          sample_world) =
     Inl \<lparr>err_name = ''Error'',
           err_message = ''Failed to add metadata: Unsupported image format: .bmp''\<rparr> \<and>
   fst (addImageMetadata failing_encoder (Some ''uploads/pic.png'') (Some sunset_metadata)
          sample_world) =
     Inl \<lparr>err_name = ''Error'',
           err_message =
             ''Failed to add metadata: Input file contains unsupported image format''\<rparr>"
  unfolding sample_world_def sunset_metadata_def by code_simp

text \<open>
  C1 (amended): every failure of \<open>addImageMetadata\<close> is a plain \<^verbatim>\<open>Error\<close>, and the four
  kinds of failure differ only in the message that follows the prefix
  \<^verbatim>\<open>Failed to add metadata: \<close>. It is \<^verbatim>\<open>Image path and metadata are required\<close> when
  the path or the metadata is absent; the message of the \<^verbatim>\<open>fs.access\<close> error when the
  source file does not exist; \<^verbatim>\<open>Unsupported image format: \<close> followed by the lower-cased
  extension when the extension has no handler; and the message of the image library's
  error when a handler fails.
\<close>

theorem failure_kinds_by_message:
  assumes "fst (addImageMetadata enc ip md w) = Inl e"
  shows "err_name e = ''Error'' \<and>
    (falsy ip \<or> md = None \<longrightarrow>
       err_message e = ''Failed to add metadata: Image path and metadata are required'') \<and>
    (\<not> falsy ip \<and> md \<noteq> None \<and> files w (the ip) = None \<longrightarrow>
       err_message e = ''Failed to add metadata: '' @ err_message (ENOENT (the ip))) \<and>
    (\<not> falsy ip \<and> md \<noteq> None \<and> files w (the ip) \<noteq> None \<and>
       \<not> supported_ext (toLowerCase (extname (the ip))) \<longrightarrow>
       err_message e = ''Failed to add metadata: Unsupported image format: '' @
                       toLowerCase (extname (the ip))) \<and>
    (\<not> falsy ip \<and> md \<noteq> None \<and> files w (the ip) \<noteq> None \<and>
       supported_ext (toLowerCase (extname (the ip))) \<longrightarrow>
       (\<exists>options cause part.
          enc (the (files w (the ip))) options = Inl (cause, part) \<and>
          err_message e = ''Failed to add metadata: '' @ err_message cause))"
proof -
  from addImageMetadata_failure[OF assms] obtain cause where
    c: "fst (addImageMetadata_try enc ip md w) = Inl cause" and
    e: "e = Error (''Failed to add metadata: '' @ err_message cause)" by blast
  have name: "err_name e = ''Error''" using e by (simp add: Error_def)
  have msg: "err_message e = ''Failed to add metadata: '' @ err_message cause"
    using e by (simp add: Error_def)
  have v: "err_message e = ''Failed to add metadata: Image path and metadata are required''"
    if "falsy ip \<or> md = None"
  proof -
    have "cause = Error ''Image path and metadata are required''"
      using c try_validation[OF that, of enc w] by simp
    then show ?thesis using msg by (simp add: Error_def)
  qed
  have present: "\<exists>p m. ip = Some p \<and> p \<noteq> [] \<and> md = Some m" if "\<not> falsy ip" "md \<noteq> None"
    using that by (auto simp: falsy_def split: option.splits)
  have nf: "err_message e = ''Failed to add metadata: '' @ err_message (ENOENT (the ip))"
    if "\<not> falsy ip" "md \<noteq> None" "files w (the ip) = None"
  proof -
    from present[OF that(1,2)] obtain p m where pm: "ip = Some p" "p \<noteq> []" "md = Some m"
      by blast
    with that(3) have "files w p = None" by simp
    from try_missing[OF pm(2) this, of enc m] c pm have "cause = ENOENT p" by simp
    then show ?thesis using msg pm by simp
  qed
  have un: "err_message e = ''Failed to add metadata: Unsupported image format: '' @
                       toLowerCase (extname (the ip))"
    if "\<not> falsy ip" "md \<noteq> None" "files w (the ip) \<noteq> None"
       "\<not> supported_ext (toLowerCase (extname (the ip)))"
  proof -
    from present[OF that(1,2)] obtain p m where pm: "ip = Some p" "p \<noteq> []" "md = Some m"
      by blast
    with that(3) obtain b where b: "files w p = Some b" by auto
    from that(4) pm have "\<not> supported_ext (toLowerCase (extname p))" by simp
    with try_existing[OF pm(2) b, of enc m] c pm
    have "cause = Error (''Unsupported image format: '' @ toLowerCase (extname p))"
      by (simp add: dispatch_unsupported)
    then show ?thesis using msg pm by (simp add: Error_def)
  qed
  have hf: "\<exists>options cause part.
          enc (the (files w (the ip))) options = Inl (cause, part) \<and>
          err_message e = ''Failed to add metadata: '' @ err_message cause"
    if "\<not> falsy ip" "md \<noteq> None" "files w (the ip) \<noteq> None"
       "supported_ext (toLowerCase (extname (the ip)))"
  proof -
    from present[OF that(1,2)] obtain p m where pm: "ip = Some p" "p \<noteq> []" "md = Some m"
      by blast
    with that(3) obtain b where b: "files w p = Some b" by auto
    let ?w1 = "w\<lparr>io_log := io_log w @ [Access p]\<rparr>"
    let ?d = "dispatch enc (toLowerCase (extname p)) p
                (outputPath_for p (toLowerCase (extname p))) m ?w1"
    from try_existing[OF pm(2) b, of enc m] c pm
    have "fst ?d = Inl cause" by (auto split: prod.splits sum.splits)
    moreover have "supported_ext (toLowerCase (extname p))" using that(4) pm by simp
    moreover have "files ?w1 p = Some b" using b by simp
    ultimately obtain opts part where "enc b opts = Inl (cause, part)"
      using dispatch_failure by blast
    with pm b msg show ?thesis by auto
  qed
  from name v nf un hf show ?thesis by blast
qed

theorem failure_kinds_by_message_witness:
  "(fst (addImageMetadata identity_encoder (Some ''uploads/photo.JPG'') None sample_world) =
      Inl (Error ''Failed to add metadata: Image path and metadata are required'') \<and>
    err_name (Error ''Failed to add metadata: Image path and metadata are required'') =
      ''Error'') \<and>
   (fst (addImageMetadata identity_encoder (Some ''uploads/missing.jpg'')
           (Some sunset_metadata) sample_world) =
      Inl (Error (''Failed to add metadata: ENOENT: no such file or directory, access '' @
                  [CHR 0x27] @ ''uploads/missing.jpg'' @ [CHR 0x27])) \<and>
    files sample_world ''uploads/missing.jpg'' = None) \<and>
   (fst (addImageMetadata identity_encoder (Some ''uploads/scan.bmp'') (Some sunset_metadata)
           sample_world) =
      Inl (Error ''Failed to add metadata: Unsupported image format: .bmp'') \<and>
    files sample_world ''uploads/scan.bmp'' = Some [66, 77] \<and>
    toLowerCase (extname ''uploads/scan.bmp'') = ''.bmp'') \<and>
   (fst (addImageMetadata failing_encoder (Some ''uploads/pic.png'') (Some sunset_metadata)
           sample_world) =
      Inl (Error ''Failed to add metadata: Input file contains unsupported image format'') \<and>
    supported_ext (toLowerCase (extname ''uploads/pic.png'')) \<and>
    (\<exists>options cause part.
       failing_encoder [137, 80, 78, 71] options = Inl (cause, part) \<and>
       err_message
         (Error ''Failed to add metadata: Input file contains unsupported image format'') =
         ''Failed to add metadata: '' @ err_message cause))"
proof -
  have f1: "files sample_world ''uploads/missing.jpg'' = None"
    and f2: "files sample_world ''uploads/scan.bmp'' = Some [66, 77]"
    and f3: "files sample_world ''uploads/pic.png'' = Some [137, 80, 78, 71]"
    by (simp_all add: sample_world_def)
  have e2: "toLowerCase (extname ''uploads/scan.bmp'') = ''.bmp''" by code_simp
  have e3: "supported_ext (toLowerCase (extname ''uploads/pic.png''))"
    by (simp add: png_path supported_ext_def)
  have a: "err_name (Error ''Failed to add metadata: Image path and metadata are required'') =
      ''Error''"
    using failure_kinds_by_message[OF run_no_metadata] by blast
  have d: "\<exists>options cause part.
       failing_encoder [137, 80, 78, 71] options = Inl (cause, part) \<and>
       err_message
         (Error ''Failed to add metadata: Input file contains unsupported image format'') =
         ''Failed to add metadata: '' @ err_message cause"
    using failure_kinds_by_message[OF run_handler_failure] e3 f3
    by (simp add: falsy_def)
  show ?thesis
    using a d e2 e3 f1 f2 run_no_metadata run_missing run_unsupported run_handler_failure
    by blast
qed

subsection \<open>C2: the output path\<close>

text \<open>
  C2 states that the output path is \<^verbatim>\<open><dir>/<basename>_with_metadata<ext>\<close> with the
  original extension preserved. For \<^verbatim>\<open>uploads/photo.JPG\<close> that is
  \<^verbatim>\<open>uploads/photo_with_metadata.JPG\<close>. The code lower-cases the extension for the switch
  and uses the lower-cased string both to strip the extension from the base name, where
  the exact comparison of \<^verbatim>\<open>path.basename\<close> then finds no match, and as the new
  extension: the output is \<^verbatim>\<open>uploads/photo.JPG_with_metadata.jpg\<close>.
\<close>

theorem uppercase_extension_outputPath:
  "fst (addImageMetadata identity_encoder (Some ''uploads/photo.JPG'') (Some sunset_metadata)
          sample_world) =
     Inr \<lparr>status = ''success'', outputPath = ''uploads/photo.JPG_with_metadata.jpg'',
           message = ''Metadata added successfully''\<rparr> \<and>
   dirname ''uploads/photo.JPG'' = ''uploads'' \<and>
   extname ''uploads/photo.JPG'' = ''.JPG'' \<and>
   basename ''uploads/photo.JPG'' ''.JPG'' = ''photo'' \<and>
   basename ''uploads/photo.JPG'' ''.jpg'' = ''photo.JPG''"
  unfolding sample_world_def sunset_metadata_def by code_simp

subsection \<open>C3: unsupported extensions\<close>

text \<open>
  C3 states that an unsupported extension fails with the unsupported-format error before
  any file I/O is attempted. The code calls \<^verbatim>\<open>fs.access\<close> first: for a file that does
  not exist the failure is the one of \<^verbatim>\<open>fs.access\<close>, and for a file that exists the
  access check has been performed when the unsupported-format error is raised.
\<close>

theorem unsupported_before_io_counterexample:
  "fst (addImageMetadata identity_encoder (Some ''uploads/missing.bmp'') (Some sunset_metadata)
          sample_world) =
     Inl (Error (''Failed to add metadata: ENOENT: no such file or directory, access '' @
                 [CHR 0x27] @ ''uploads/missing.bmp'' @ [CHR 0x27])) \<and>
   fst (addImageMetadata identity_encoder (Some ''uploads/missing.bmp'') (Some sunset_metadata)
          sample_world) \<noteq>
     Inl (Error ''Failed to add metadata: Unsupported image format: .bmp'') \<and>
   io_log (snd (addImageMetadata identity_encoder (Some ''uploads/scan.bmp'')
                  (Some sunset_metadata) sample_world)) = [Access ''uploads/scan.bmp'']"
  by (simp add: addImageMetadata_def addImageMetadata_try_def falsy_def fs_access_def
        sample_world_def sunset_metadata_def ENOENT_def Error_def Let_def) code_simp

text \<open>
  C3 (amended): for every non-empty source path with metadata present whose file exists
  and whose lower-cased extension is not one of \<^verbatim>\<open>.jpg .jpeg .png .webp .tiff\<close>,
  \<open>addImageMetadata\<close> fails with the unsupported-format error; the existence check on the
  source path is the only file operation performed, and no file is read or written.
\<close>

theorem unsupported_format_after_access:
  assumes "p \<noteq> []" and "files w p = Some b"
    and "\<not> supported_ext (toLowerCase (extname p))"
  shows "addImageMetadata enc (Some p) (Some m) w =
           (Inl (Error (''Failed to add metadata: Unsupported image format: '' @
                        toLowerCase (extname p))),
            w\<lparr>io_log := io_log w @ [Access p]\<rparr>)"
  using assms
  by (simp add: addImageMetadata_def try_existing dispatch_unsupported Error_def)

theorem unsupported_format_after_access_witness:
  "''uploads/scan.bmp'' \<noteq> [] \<and> files sample_world ''uploads/scan.bmp'' = Some [66, 77] \<and>
   \<not> supported_ext (toLowerCase (extname ''uploads/scan.bmp'')) \<and>
   addImageMetadata identity_encoder (Some ''uploads/scan.bmp'') (Some sunset_metadata)
       sample_world =
     (Inl (Error ''Failed to add metadata: Unsupported image format: .bmp''),
      sample_world\<lparr>io_log := [Access ''uploads/scan.bmp'']\<rparr>)"
proof -
  have h1: "''uploads/scan.bmp'' \<noteq> []" by simp
  have h2: "files sample_world ''uploads/scan.bmp'' = Some [66, 77]"
    by (simp add: sample_world_def)
  have e: "toLowerCase (extname ''uploads/scan.bmp'') = ''.bmp''" by code_simp
  have h3: "\<not> supported_ext (toLowerCase (extname ''uploads/scan.bmp''))"
    unfolding e by (simp add: supported_ext_def)
  have l: "io_log sample_world = []" by (simp add: sample_world_def)
  show ?thesis
    using h1 h2 h3
      unsupported_format_after_access[OF h1 h2 h3, of identity_encoder sunset_metadata]
    by (simp add: e l)
qed

subsection \<open>C4: the keyword separators\<close>

text \<open>
  C4: for every metadata value the JPEG handler (EXIF XPKeywords) and the TIFF handler
  (Keywords) receive the keywords joined with \<^verbatim>\<open>;\<close>, and the PNG handler (text chunk
  Keywords) and the WebP handler (XMP Keywords) receive them joined with \<^verbatim>\<open>, \<close>; this
  holds for every keyword list, the empty and the singleton list included. The slots are
  those of the options object each handler passes to the image library.
\<close>

theorem keyword_separators:
  "get_path [''exif'', ''IFD0'', ''XPKeywords''] (jpeg_withMetadata md) =
     Some (Str (array_join '';'' (keywords md))) \<and>
   get_path [''tiff'', ''Keywords''] (tiff_withMetadata md) =
     Some (Str (array_join '';'' (keywords md))) \<and>
   get_path [''png'', ''text'', ''Keywords''] (png_withMetadata md) =
     Some (Str (array_join '', '' (keywords md))) \<and>
   get_path [''webp'', ''xmp'', ''Keywords''] (webp_withMetadata md) =
     Some (Str (array_join '', '' (keywords md))) \<and>
   handleJpegMetadata enc inputPath outPath md w =
     sharp_toFile enc inputPath (jpeg_withMetadata md) outPath w \<and>
   handleTiffMetadata enc inputPath outPath md w =
     sharp_toFile enc inputPath (tiff_withMetadata md) outPath w \<and>
   handlePngMetadata enc inputPath outPath md w =
     sharp_toFile enc inputPath (png_withMetadata md) outPath w \<and>
   handleWebPMetadata enc inputPath outPath md w =
     sharp_toFile enc inputPath (webp_withMetadata md) outPath w \<and>
   array_join '';'' [] = [] \<and> array_join '', '' [] = [] \<and>
   array_join '';'' [k] = k \<and> array_join '', '' [k] = k \<and>
   array_join '';'' (k # k' # ks) = k @ '';'' @ array_join '';'' (k' # ks) \<and>
   array_join '', '' (k # k' # ks) = k @ '', '' @ array_join '', '' (k' # ks)"
  by (simp add: jpeg_withMetadata_def exifMetadata_def tiff_withMetadata_def tiffMetadata_def
        png_withMetadata_def pngMetadata_def webp_withMetadata_def webpMetadata_def
        handleJpegMetadata_def handleTiffMetadata_def handlePngMetadata_def
        handleWebPMetadata_def)

subsection \<open>C5: the JPEG slots\<close>


subsection \<open>C6: the PNG text chunks of the example\<close>


subsection \<open>C7: a missing metadata argument\<close>


subsection \<open>C8: the source file is never written\<close>

text \<open>
  C8: for every call, whatever the encoder does (success, failure, failure with a partial
  output), the file at the source path is unchanged; every file other than the one at the
  output path is unchanged; the operations performed are the existence check and the read
  of the source and, at most, a write of the output path, never a write of the source
  path. For a source with a supported extension the output names a different directory
  entry than the source. A call without a source path leaves the state unchanged.
\<close>

theorem source_file_untouched:
  "files (snd (addImageMetadata enc (Some p) md w)) p = files w p \<and>
   (\<forall>q. q \<noteq> outputPath_for p (toLowerCase (extname p)) \<longrightarrow>
        files (snd (addImageMetadata enc (Some p) md w)) q = files w q) \<and>
   (\<exists>evs. io_log (snd (addImageMetadata enc (Some p) md w)) = io_log w @ evs \<and>
          set evs \<subseteq> {Access p, ReadFile p,
                       WriteFile (outputPath_for p (toLowerCase (extname p)))} \<and>
          WriteFile p \<notin> set evs) \<and>
   (supported_ext (toLowerCase (extname p)) \<longrightarrow>
      last_part (outputPath_for p (toLowerCase (extname p))) \<noteq> last_part p) \<and>
   snd (addImageMetadata enc None md w) = w"
proof -
  let ?out = "outputPath_for p (toLowerCase (extname p))"
  let ?w' = "snd (addImageMetadata enc (Some p) md w)"
  have none: "snd (addImageMetadata enc None md w) = w"
    by (simp add: snd_addImageMetadata try_validation falsy_def)
  have main: "files ?w' p = files w p \<and>
     (\<forall>q. q \<noteq> ?out \<longrightarrow> files ?w' q = files w q) \<and>
     (\<exists>evs. io_log ?w' = io_log w @ evs \<and>
            set evs \<subseteq> {Access p, ReadFile p, WriteFile ?out} \<and> WriteFile p \<notin> set evs)"
  proof (cases "falsy (Some p) \<or> md = None")
    case True
    then have "?w' = w" by (simp add: snd_addImageMetadata try_validation)
    then show ?thesis by simp
  next
    case False
    then obtain m where m: "md = Some m" and p: "p \<noteq> []" by (auto simp: falsy_def)
    show ?thesis
    proof (cases "files w p")
      case None
      then have "?w' = w\<lparr>io_log := io_log w @ [Access p]\<rparr>"
        by (simp add: snd_addImageMetadata m try_missing[OF p])
      then show ?thesis by simp
    next
      case (Some b)
      let ?w1 = "w\<lparr>io_log := io_log w @ [Access p]\<rparr>"
      define r where "r = fst (dispatch enc (toLowerCase (extname p)) p ?out m ?w1)"
      have "?w' = snd (dispatch enc (toLowerCase (extname p)) p ?out m ?w1)"
        by (simp add: snd_addImageMetadata m snd_try_existing[OF p Some])
      then have d: "dispatch enc (toLowerCase (extname p)) p ?out m ?w1 = (r, ?w')"
        by (simp add: r_def)
      from dispatch_effect[OF d] consider
        (handler) "supported_ext (toLowerCase (extname p))"
          "\<forall>q. q \<noteq> ?out \<longrightarrow> files ?w' q = files ?w1 q"
          "io_log ?w' = io_log ?w1 @ [ReadFile p] \<or>
           io_log ?w' = io_log ?w1 @ [ReadFile p, WriteFile ?out]"
        | (default) "?w' = ?w1"
        by blast
      then show ?thesis
      proof cases
        case handler
        note sup = handler(1) and frame = handler(2) and log = handler(3)
        have neq: "?out \<noteq> p"
          by (rule outputPath_differs[OF supported_ext_nonempty[OF sup]])
        from frame neq have fp: "files ?w' p = files w p" by simp
        from frame have fr: "\<forall>q. q \<noteq> ?out \<longrightarrow> files ?w' q = files w q" by simp
        from log have
          "io_log ?w' = io_log w @ [Access p, ReadFile p] \<or>
           io_log ?w' = io_log w @ [Access p, ReadFile p, WriteFile ?out]" by simp
        then have "\<exists>evs. io_log ?w' = io_log w @ evs \<and>
            set evs \<subseteq> {Access p, ReadFile p, WriteFile ?out} \<and> WriteFile p \<notin> set evs"
        proof
          assume "io_log ?w' = io_log w @ [Access p, ReadFile p]"
          then show ?thesis by (intro exI[of _ "[Access p, ReadFile p]"]) simp
        next
          assume "io_log ?w' = io_log w @ [Access p, ReadFile p, WriteFile ?out]"
          then show ?thesis using neq
            by (intro exI[of _ "[Access p, ReadFile p, WriteFile ?out]"]) auto
        qed
        with fp fr show ?thesis by blast
      next
        case default
        then have fp: "files ?w' = files w" and lg: "io_log ?w' = io_log w @ [Access p]"
          by simp_all
        from lg have "\<exists>evs. io_log ?w' = io_log w @ evs \<and>
            set evs \<subseteq> {Access p, ReadFile p, WriteFile ?out} \<and> WriteFile p \<notin> set evs"
          by (intro exI[of _ "[Access p]"]) simp
        with fp show ?thesis by simp
      qed
    qed
  qed
  have entry: "last_part ?out \<noteq> last_part p" if "supported_ext (toLowerCase (extname p))"
  proof
    assume eq: "last_part ?out = last_part p"
    note lp = outputPath_last_part[OF supported_ext_nonempty[OF that]]
    from lp(1) eq have "length (last_part p) =
      length (basename p (toLowerCase (extname p)) @ ''_with_metadata'' @
              toLowerCase (extname p))"
      by metis
    with lp(2) show False by linarith
  qed
  from main none entry show ?thesis by blast
qed

theorem source_file_untouched_witness:
  "''uploads/photo.JPG'' \<noteq>
     outputPath_for ''uploads/photo.JPG'' (toLowerCase (extname ''uploads/photo.JPG'')) \<and>
   supported_ext (toLowerCase (extname ''uploads/photo.JPG'')) \<and>
   files (snd (addImageMetadata identity_encoder (Some ''uploads/photo.JPG'')
                 (Some sunset_metadata) sample_world)) ''uploads/photo.JPG'' =
     files sample_world ''uploads/photo.JPG'' \<and>
   last_part (outputPath_for ''uploads/photo.JPG''
                (toLowerCase (extname ''uploads/photo.JPG''))) \<noteq>
     last_part ''uploads/photo.JPG'' \<and>
   io_log (snd (addImageMetadata identity_encoder (Some ''uploads/photo.JPG'')
                  (Some sunset_metadata) sample_world)) =
     [Access ''uploads/photo.JPG'', ReadFile ''uploads/photo.JPG'',
      WriteFile ''uploads/photo.JPG_with_metadata.jpg'']"
proof -
  have h1: "''uploads/photo.JPG'' \<noteq>
     outputPath_for ''uploads/photo.JPG'' (toLowerCase (extname ''uploads/photo.JPG''))"
    by code_simp
  have h2: "supported_ext (toLowerCase (extname ''uploads/photo.JPG''))"
    by code_simp
  have lg: "io_log (snd (addImageMetadata identity_encoder (Some ''uploads/photo.JPG'')
                  (Some sunset_metadata) sample_world)) =
     [Access ''uploads/photo.JPG'', ReadFile ''uploads/photo.JPG'',
      WriteFile ''uploads/photo.JPG_with_metadata.jpg'']"
    unfolding sample_world_def sunset_metadata_def by code_simp
  show ?thesis
    using h1 h2 lg
      source_file_untouched[of identity_encoder "''uploads/photo.JPG''"
        "Some sunset_metadata" sample_world]
    by blast
qed

subsection \<open>C9: the message prefix\<close>

text \<open>
  C9: every error raised by \<open>addImageMetadata\<close> is the rewrapping of an error raised in
  the \<^verbatim>\<open>try\<close> block: its message is the prefix \<^verbatim>\<open>Failed to add metadata: \<close>
  followed by the message of that underlying error.
\<close>

theorem failure_message_prefix:
  assumes "fst (addImageMetadata enc ip md w) = Inl e"
  shows "(\<exists>cause. fst (addImageMetadata_try enc ip md w) = Inl cause \<and>
            e = Error (''Failed to add metadata: '' @ err_message cause)) \<and>
         take (length ''Failed to add metadata: '') (err_message e) =
           ''Failed to add metadata: ''"
proof -
  from addImageMetadata_failure[OF assms] obtain cause where
    c: "fst (addImageMetadata_try enc ip md w) = Inl cause" and
    e: "e = Error (''Failed to add metadata: '' @ err_message cause)" by blast
  from e have "take (length ''Failed to add metadata: '') (err_message e) =
           ''Failed to add metadata: ''" by (simp add: Error_def)
  with c e show ?thesis by blast
qed

theorem failure_message_prefix_witness:
  "fst (addImageMetadata failing_encoder (Some ''uploads/pic.png'') (Some sunset_metadata)
          sample_world) =
     Inl (Error ''Failed to add metadata: Input file contains unsupported image format'') \<and>
   (\<exists>cause. fst (addImageMetadata_try failing_encoder (Some ''uploads/pic.png'')
                   (Some sunset_metadata) sample_world) = Inl cause \<and>
            Error ''Failed to add metadata: Input file contains unsupported image format'' =
              Error (''Failed to add metadata: '' @ err_message cause)) \<and>
   take (length ''Failed to add metadata: '')
     (err_message
        (Error ''Failed to add metadata: Input file contains unsupported image format'')) =
     ''Failed to add metadata: ''"
  using run_handler_failure failure_message_prefix[OF run_handler_failure] by blast

subsection \<open>C10: the order of the checks\<close>

text \<open>
  C10: with both arguments present, a source file that does not exist fails with the
  error of the existence check, whatever its extension; in particular the failure is not
  the unsupported-format error, and only the existence check has been performed.
\<close>

theorem missing_file_before_format:
  assumes "p \<noteq> []" and "files w p = None"
  shows "addImageMetadata enc (Some p) (Some m) w =
           (Inl (Error (''Failed to add metadata: '' @ err_message (ENOENT p))),
            w\<lparr>io_log := io_log w @ [Access p]\<rparr>) \<and>
         fst (addImageMetadata enc (Some p) (Some m) w) \<noteq>
           Inl (Error (''Failed to add metadata: Unsupported image format: '' @
                       toLowerCase (extname p)))"
  using assms by (simp add: addImageMetadata_def try_missing Error_def ENOENT_def)

theorem missing_file_before_format_witness:
  "''uploads/missing.bmp'' \<noteq> [] \<and> files sample_world ''uploads/missing.bmp'' = None \<and>
   \<not> supported_ext (toLowerCase (extname ''uploads/missing.bmp'')) \<and>
   fst (addImageMetadata identity_encoder (Some ''uploads/missing.bmp'') (Some sunset_metadata)
          sample_world) =
     Inl (Error (''Failed to add metadata: ENOENT: no such file or directory, access '' @
                 [CHR 0x27] @ ''uploads/missing.bmp'' @ [CHR 0x27]))"
proof -
  have h1: "''uploads/missing.bmp'' \<noteq> []" by simp
  have h2: "files sample_world ''uploads/missing.bmp'' = None" by (simp add: sample_world_def)
  have h3: "\<not> supported_ext (toLowerCase (extname ''uploads/missing.bmp''))" by code_simp
  show ?thesis
    using h1 h2 h3 missing_file_before_format[OF h1 h2, of identity_encoder sunset_metadata]
    by (simp add: ENOENT_def Error_def)
qed

end
